theory Spec2Isabelle
  imports Complex_Main "HOL-Library.Word"
begin

section \<open>The daemon process (tincd.c)\<close>

subsection \<open>Process state, operating system and environment\<close>

text \<open>
  How the process stands: still running, ended by \<open>exit(c)\<close> or by \<open>return c\<close> from
  \<open>main\<close>, replaced by another image through a successful \<open>execvp\<close>, or terminated by
  the default action of a signal.
\<close>

datatype status = Running | Exited int | Execed "string list" | Killed nat

text \<open>What \<open>signal(2)\<close> can install: the two dispositions and the handlers of tincd.c.\<close>

datatype handler =
    SIG_DFL | SIG_IGN
  | Sighuh | Sigterm_handler | Sigquit_handler | Sigsegv_handler | Sigsegv_square
  | Sighup_handler | Sigint_handler | Sigusr1_handler | Sigusr2_handler | Parent_exit

text \<open>
  Everything the process does to the outside is appended to a trace, in program order:
  the text written to the three output channels and the calls into the operating system
  and into the parts of the daemon that live in other files.
\<close>

datatype event =
    Stdout string | Stderr string | Syslog string | Perror string
  | Close_network_connections | Setup_network_connections | Read_config_file string
  | Security_init | Main_loop | Dump_conn_list | Regenerate_keys
  | Kill int nat | Remove_pid string | Write_pid string | Execvp "string list"
  | Fork | Sleep nat | Open_tty | Notty | Setsid | Chdir string | Openlog string | Closelog
  | Sendline string | Endwin

text \<open>Signal numbers (Linux), and the \<open>errno\<close> of \<open>kill(2)\<close> for a process that is gone.\<close>

definition SIGHUP :: nat where "SIGHUP = 1"
definition SIGINT :: nat where "SIGINT = 2"
definition SIGQUIT :: nat where "SIGQUIT = 3"
definition SIGKILL :: nat where "SIGKILL = 9"
definition SIGUSR1 :: nat where "SIGUSR1 = 10"
definition SIGSEGV :: nat where "SIGSEGV = 11"
definition SIGUSR2 :: nat where "SIGUSR2 = 12"
definition SIGPIPE :: nat where "SIGPIPE = 13"
definition SIGTERM :: nat where "SIGTERM = 15"
definition SIGCHLD :: nat where "SIGCHLD = 17"
definition SIGCONT :: nat where "SIGCONT = 18"
definition SIGSTOP :: nat where "SIGSTOP = 19"
definition SIGTSTP :: nat where "SIGTSTP = 20"
definition SIGTTIN :: nat where "SIGTTIN = 21"
definition SIGTTOU :: nat where "SIGTTOU = 22"
definition SIGURG :: nat where "SIGURG = 23"
definition SIGWINCH :: nat where "SIGWINCH = 28"

definition ESRCH :: int where "ESRCH = 3"

text \<open>
  The answers of the world around one run of the program: compile-time constants, the
  effective user, which processes \<open>kill\<close> can reach, what \<open>fork\<close> returns in the process
  that is followed, which signal (if any) ends the parent's \<open>sleep\<close>, and the outcome of
  the calls whose code is in other files.
\<close>

record env =
  CONFDIR :: string
  PACKAGE :: string
  VERSION :: string
  DATE :: string
  TIME :: string
  euid :: int
  kill_errno :: "int \<Rightarrow> int"
  fork_ret :: int
  child_pid :: int
  sleep_sig :: "nat option"
  execvp_ok :: bool
  pid_creatable :: bool
  conf_disk :: "string \<Rightarrow> string list option"
  timeout_ok :: "string \<Rightarrow> bool"
  security_ok :: bool
  net_setup :: "string list option"
  tty_fd :: int
  ioctl_ret :: int
  setsid_ret :: int
  arriving :: "nat list"

text \<open>
  The global variables of tincd.c, followed by the state of the process in the operating
  system (its pid, its signal dispositions, the PID files on disk), the meta connections
  and the data plane.
\<close>

record proc =
  program_name :: string
  show_help :: bool
  show_version :: bool
  kill_tincd :: bool
  do_detach :: bool
  debug_lvl :: int
  configfilename :: "string option"
  netname :: "string option"
  pidfilename :: string
  confbase :: string
  identname :: string
  ppid :: int
  g_argv :: "string list"
  cp_file :: "string option"
  cp_line :: int
  config :: "string list"
  total_tap_out :: int
  total_socket_out :: int
  total_tap_in :: int
  total_socket_in :: int
  errno :: int
  self :: int
  status :: status
  handlers :: "nat \<Rightarrow> handler"
  trace :: "event list"
  pidfiles :: "string \<rightharpoonup> int"
  conns :: "string list"
  plane_up :: bool

text \<open>
  The state in which \<open>main\<close> is entered: the C initialisers of the globals
  (\<open>do_detach = 1\<close>, everything else zero or \<open>NULL\<close>), every signal at its default
  disposition, nothing done yet.
\<close>

definition boot :: "int \<Rightarrow> (string \<rightharpoonup> int) \<Rightarrow> proc" where
  "boot pid files =
     \<lparr> program_name = [], show_help = False, show_version = False, kill_tincd = False,
       do_detach = True, debug_lvl = 0, configfilename = None, netname = None,
       pidfilename = [], confbase = [], identname = [], ppid = 0, g_argv = [],
       cp_file = None, cp_line = 0, config = [],
       total_tap_out = 0, total_socket_out = 0, total_tap_in = 0, total_socket_in = 0,
       errno = 0, self = pid, status = Running, handlers = (\<lambda>_. SIG_DFL), trace = [],
       pidfiles = files, conns = [], plane_up = False \<rparr>"

subsection \<open>Primitives\<close>

definition alive :: "proc \<Rightarrow> bool" where
  "alive s = (status s = Running)"

definition emit :: "event \<Rightarrow> proc \<Rightarrow> proc" where
  "emit ev s = s\<lparr>trace := trace s @ [ev]\<rparr>"

definition exit :: "int \<Rightarrow> proc \<Rightarrow> proc" where
  "exit c s = s\<lparr>status := Exited c\<rparr>"

text \<open>\<open>%d\<close> of printf.\<close>

fun digits :: "nat \<Rightarrow> string" where
  "digits n =
     (if n < 10 then [''0123456789'' ! n]
      else digits (n div 10) @ [''0123456789'' ! (n mod 10)])"

declare digits.simps [simp del]

definition show_int :: "int \<Rightarrow> string" where
  "show_int i = (if i < 0 then CHR ''-'' # digits (nat (- i)) else digits (nat i))"

definition nl :: string where
  "nl = [CHR 0x0A]"

text \<open>
  \<open>kill(pid, sig)\<close>: the signal is recorded; \<open>errno\<close> is set and -1 returned when the
  environment says the call fails. The delivery is not followed, neither to another
  process nor, for \<open>pid = 0\<close> (the caller's own process group, which is what
  \<open>kill(ppid, SIGTERM)\<close> addresses in a daemon that has not detached), back to the
  caller. Inside the handler of SIGTERM that signal is held back until the process has
  exited; what it does to a process that calls \<open>cleanup_and_exit\<close> outside a handler is
  not modelled.
\<close>

definition kill :: "env \<Rightarrow> int \<Rightarrow> nat \<Rightarrow> proc \<Rightarrow> int \<times> proc" where
  "kill e pid sig s =
     (if kill_errno e pid = 0 then (0, emit (Kill pid sig) s)
      else (- 1, emit (Kill pid sig) (s\<lparr>errno := kill_errno e pid\<rparr>)))"

text \<open>
  \<open>signal(sig, h)\<close> fails with \<open>SIG_ERR\<close> for signal 0, for \<open>SIGKILL\<close> and \<open>SIGSTOP\<close> and
  beyond the last signal number; the result says whether it succeeded.
\<close>

definition catchable :: "nat \<Rightarrow> bool" where
  "catchable sig = (0 < sig \<and> sig \<noteq> SIGKILL \<and> sig \<noteq> SIGSTOP \<and> sig < 65)"

definition signal :: "nat \<Rightarrow> handler \<Rightarrow> proc \<Rightarrow> bool \<times> proc" where
  "signal sig h s =
     (if catchable sig then (True, s\<lparr>handlers := (handlers s)(sig := h)\<rparr>) else (False, s))"

text \<open>
  \<open>execvp\<close>: on success the process image is replaced and nothing of this program runs
  any more; on failure the call returns.
\<close>

definition execvp :: "env \<Rightarrow> string list \<Rightarrow> proc \<Rightarrow> proc" where
  "execvp e argv s =
     (if execvp_ok e then (emit (Execvp argv) s)\<lparr>status := Execed argv\<rparr>
      else emit (Execvp argv) s)"

subsection \<open>The PID file library (lib/pidfile.c)\<close>

text \<open>
  Modelled from the spec: \<open>read_pid\<close>, \<open>check_pid\<close>, \<open>write_pid\<close> and \<open>remove_pid\<close> of
  lib/pidfile.c, which is not among the sources. Section 4.1: ``read any existing PID
  file; if the PID is alive (\<open>kill(pid,0)\<close> succeeds or returns with errno \<open>\<noteq>\<close> ESRCH), fail
  with AlreadyRunning. Otherwise [...] create [...] the PID file and write the current
  PID''; section 6: the file holds the decimal PID. A missing file reads as 0. Whether
  the file can be created (``if it's locked, write-protected, or whatever'', says
  \<open>write_pidfile\<close>) is the environment's answer \<open>pid_creatable\<close>.
\<close>

definition read_pid :: "string \<Rightarrow> proc \<Rightarrow> int" where
  "read_pid f s = (case pidfiles s f of None \<Rightarrow> 0 | Some p \<Rightarrow> p)"

definition check_pid :: "env \<Rightarrow> string \<Rightarrow> proc \<Rightarrow> int" where
  "check_pid e f s =
     (let pid = read_pid f s
      in if pid = 0 then 0 else if kill_errno e pid = ESRCH then 0 else pid)"

definition write_pid :: "env \<Rightarrow> string \<Rightarrow> proc \<Rightarrow> int \<times> proc" where
  "write_pid e f s =
     (if pid_creatable e
      then (self s, emit (Write_pid f) (s\<lparr>pidfiles := (pidfiles s)(f \<mapsto> self s)\<rparr>))
      else (0, emit (Write_pid f) s))"

definition remove_pid :: "string \<Rightarrow> proc \<Rightarrow> proc" where
  "remove_pid f s = emit (Remove_pid f) (s\<lparr>pidfiles := (pidfiles s)(f := None)\<rparr>)"

subsection \<open>The parts of the daemon in net.c, conf.c and encr.c\<close>

text \<open>
  Modelled from the spec: \<open>close_network_connections\<close> and \<open>setup_network_connections\<close>
  of net.c, which is not among the sources. Sections 4.2 and 4.7: the first ``tear[s]
  down all meta-connections and the data plane'', the second ``bring[s] the plane back
  up''; unlinking the PID file is a step of its own in both sections. Which peers the
  set-up reaches, or that it fails, is the environment's answer \<open>net_setup\<close>.
\<close>

definition close_network_connections :: "proc \<Rightarrow> proc" where
  "close_network_connections s =
     emit Close_network_connections (s\<lparr>conns := [], plane_up := False\<rparr>)"

definition setup_network_connections :: "env \<Rightarrow> proc \<Rightarrow> int \<times> proc" where
  "setup_network_connections e s =
     (case net_setup e of
        None \<Rightarrow> (- 1, emit Setup_network_connections s)
      | Some peers \<Rightarrow> (0, emit Setup_network_connections (s\<lparr>conns := peers, plane_up := True\<rparr>)))"

text \<open>
  Modelled from the spec: \<open>read_config_file\<close> of conf.c and \<open>security_init\<close> of encr.c,
  which are not among the sources. Section 7: a configuration that cannot be read at
  startup is an error; the parsed entries are what the environment finds on disk under
  the file's name.
\<close>

definition read_config_file :: "env \<Rightarrow> string \<Rightarrow> proc \<Rightarrow> int \<times> proc" where
  "read_config_file e f s =
     (case conf_disk e f of
        None \<Rightarrow> (- 1, emit (Read_config_file f) s)
      | Some entries \<Rightarrow> (0, emit (Read_config_file f) (s\<lparr>config := config s @ entries\<rparr>)))"

definition security_init :: "env \<Rightarrow> proc \<Rightarrow> int \<times> proc" where
  "security_init e s = (if security_ok e then 0 else - 1, emit Security_init s)"

definition dump_conn_list :: "proc \<Rightarrow> proc" where
  "dump_conn_list s = emit Dump_conn_list s"

definition regenerate_keys :: "proc \<Rightarrow> proc" where
  "regenerate_keys s = emit Regenerate_keys s"

subsection \<open>Termination, the PID file, killing another daemon\<close>

text \<open>
  \<open>cleanup_and_exit\<close>: close the network connections, log the byte counters when
  debugging, close the log, signal the parent and exit with the given code.
\<close>

definition totals_line :: "proc \<Rightarrow> string" where
  "totals_line s =
     ''Total bytes written: tap '' @ show_int (total_tap_out s)
       @ '', socket '' @ show_int (total_socket_out s)
       @ ''; bytes read: tap '' @ show_int (total_tap_in s)
       @ '', socket '' @ show_int (total_socket_in s) @ ''.''"

definition cleanup_and_exit :: "env \<Rightarrow> int \<Rightarrow> proc \<Rightarrow> proc" where
  "cleanup_and_exit e c s0 =
     (let s = close_network_connections s0;
          s = (if debug_lvl s > 0 then emit (Syslog (totals_line s)) s else s);
          s = emit Closelog s;
          s = snd (kill e (ppid s) SIGTERM s)
      in exit c s)"

text \<open>
  \<open>write_pidfile\<close>: check for an existing tincd for this net, and write the pid to the
  PID file; 1 is the error return.
\<close>

definition write_pidfile :: "env \<Rightarrow> proc \<Rightarrow> int \<times> proc" where
  "write_pidfile e s =
     (let pid = check_pid e (pidfilename s) s
      in if pid \<noteq> 0
         then (case netname s of
                 Some n \<Rightarrow>
                   (1, emit (Stderr (''A tincd is already running for net `'' @ n
                          @ [CHR 0x27] @ '' with pid '' @ show_int pid @ ''.'' @ nl)) s)
               | None \<Rightarrow>
                   (1, emit (Stderr (''A tincd is already running with pid ''
                          @ show_int pid @ ''.'' @ nl)) s))
         else (case write_pid e (pidfilename s) s of
                 (w, s') \<Rightarrow> if w = 0 then (1, s') else (0, s')))"

text \<open>\<open>kill_other\<close>: kill an older tincd for this net.\<close>

definition kill_other :: "env \<Rightarrow> proc \<Rightarrow> int \<times> proc" where
  "kill_other e s0 =
     (let pid = read_pid (pidfilename s0) s0
      in if pid = 0
         then (case netname s0 of
                 Some n \<Rightarrow>
                   (1, emit (Stderr (''No other tincd is running for net `'' @ n
                          @ [CHR 0x27] @ ''.'' @ nl)) s0)
               | None \<Rightarrow> (1, emit (Stderr (''No other tincd is running.'' @ nl)) s0))
         else (case kill e pid SIGTERM (s0\<lparr>errno := 0\<rparr>) of
                 (r, s) \<Rightarrow>
                   (0, remove_pid (pidfilename s)
                         (if r \<noteq> 0 \<and> errno s = ESRCH
                          then emit (Stderr (''Removing stale lock file.'' @ nl)) s
                          else s))))"

subsection \<open>Signal handlers\<close>

definition sigterm_handler :: "env \<Rightarrow> proc \<Rightarrow> proc" where
  "sigterm_handler e s =
     cleanup_and_exit e 0 (if debug_lvl s > 0 then emit (Syslog ''Got TERM signal'') s else s)"

definition sigquit_handler :: "env \<Rightarrow> proc \<Rightarrow> proc" where
  "sigquit_handler e s =
     cleanup_and_exit e 0 (if debug_lvl s > 0 then emit (Syslog ''Got QUIT signal'') s else s)"

definition sigint_handler :: "env \<Rightarrow> proc \<Rightarrow> proc" where
  "sigint_handler e s =
     cleanup_and_exit e 0 (if debug_lvl s > 0 then emit (Syslog ''Got INT signal'') s else s)"

definition sigsegv_square :: "proc \<Rightarrow> proc" where
  "sigsegv_square s = exit 0 (emit (Syslog ''Got another SEGV signal: not restarting'') s)"

text \<open>
  \<open>sigsegv_handler\<close>, statement by statement: the log line, the binding of
  \<open>sigsegv_square\<close>, the closing of the network connections, the unlinking of the PID
  file, and \<open>execvp\<close> with the saved \<open>argv\<close>. The handler runs them in this order.
\<close>

definition segv_log :: "proc \<Rightarrow> proc" where
  "segv_log s =
     (case cp_file s of
        Some f \<Rightarrow>
          emit (Syslog (''Got SEGV signal after '' @ f @ '' line ''
                 @ show_int (cp_line s) @ ''. Trying to re-execute.'')) s
      | None \<Rightarrow> emit (Syslog ''Got SEGV signal; trying to re-execute.'') s)"

definition sigsegv_stmts :: "env \<Rightarrow> (proc \<Rightarrow> proc) list" where
  "sigsegv_stmts e =
     [segv_log,
      \<lambda>s. snd (signal SIGSEGV Sigsegv_square s),
      close_network_connections,
      \<lambda>s. remove_pid (pidfilename s) s,
      \<lambda>s. execvp e (g_argv s) s]"

definition run_stmts :: "(proc \<Rightarrow> proc) list \<Rightarrow> proc \<Rightarrow> proc" where
  "run_stmts stmts s = fold (\<lambda>stmt. stmt) stmts s"

definition sigsegv_handler :: "env \<Rightarrow> proc \<Rightarrow> proc" where
  "sigsegv_handler e s = run_stmts (sigsegv_stmts e) s"

definition sighup_handler :: "env \<Rightarrow> proc \<Rightarrow> proc" where
  "sighup_handler e s0 =
     (let s = (if debug_lvl s0 > 0 then emit (Syslog ''Got HUP signal'') s0 else s0);
          s = close_network_connections s
      in snd (setup_network_connections e s))"

definition sigusr1_handler :: "proc \<Rightarrow> proc" where
  "sigusr1_handler s = dump_conn_list s"

definition sigusr2_handler :: "proc \<Rightarrow> proc" where
  "sigusr2_handler s =
     regenerate_keys (if debug_lvl s > 1 then emit (Syslog ''Forcing new keys'') s else s)"

definition sighuh :: "nat \<Rightarrow> proc \<Rightarrow> proc" where
  "sighuh a s =
     (case cp_file s of
        Some f \<Rightarrow>
          emit (Syslog (''Got unexpected signal ('' @ show_int (int a) @ '') after '' @ f
                 @ '' line '' @ show_int (cp_line s) @ ''.'')) s
      | None \<Rightarrow> emit (Syslog (''Got unexpected signal ('' @ show_int (int a) @ '').'')) s)"

definition parent_exit :: "proc \<Rightarrow> proc" where
  "parent_exit s = exit 0 s"

text \<open>
  The delivery of one signal to the process. A process that has ended receives nothing.
  The default action ends the process, except for the signals that are ignored or that
  only stop it. An installed handler runs to its end before anything else is delivered
  (the signal is blocked while its handler runs).
\<close>

definition default_action :: "nat \<Rightarrow> proc \<Rightarrow> proc" where
  "default_action sig s =
     (if sig \<in> {SIGCHLD, SIGCONT, SIGURG, SIGWINCH}
         \<or> sig \<in> {SIGSTOP, SIGTSTP, SIGTTIN, SIGTTOU} then s
      else s\<lparr>status := Killed sig\<rparr>)"

definition deliver :: "env \<Rightarrow> nat \<Rightarrow> proc \<Rightarrow> proc" where
  "deliver e sig s =
     (if \<not> alive s then s
      else case handlers s sig of
             SIG_DFL \<Rightarrow> default_action sig s
           | SIG_IGN \<Rightarrow> s
           | Sighuh \<Rightarrow> sighuh sig s
           | Sigterm_handler \<Rightarrow> sigterm_handler e s
           | Sigquit_handler \<Rightarrow> sigquit_handler e s
           | Sigsegv_handler \<Rightarrow> sigsegv_handler e s
           | Sigsegv_square \<Rightarrow> sigsegv_square s
           | Sighup_handler \<Rightarrow> sighup_handler e s
           | Sigint_handler \<Rightarrow> sigint_handler e s
           | Sigusr1_handler \<Rightarrow> sigusr1_handler s
           | Sigusr2_handler \<Rightarrow> sigusr2_handler s
           | Parent_exit \<Rightarrow> parent_exit s)"


text \<open>
  \<open>setup_signals\<close>: every signal below 32 goes to \<open>sighuh\<close> first; then the signals
  the daemon acts on get their handlers, each only if it could be set to \<open>SIG_IGN\<close>.
\<close>

definition install :: "nat \<Rightarrow> handler \<Rightarrow> proc \<Rightarrow> proc" where
  "install sig h s =
     (case signal sig SIG_IGN s of
        (ok, s') \<Rightarrow> if ok then snd (signal sig h s') else s')"

definition setup_signals :: "proc \<Rightarrow> proc" where
  "setup_signals s0 =
     (let s = fold (\<lambda>i s. snd (signal i Sighuh s)) [0..<32] s0;
          s = install SIGTERM Sigterm_handler s;
          s = install SIGQUIT Sigquit_handler s;
          s = install SIGSEGV Sigsegv_handler s;
          s = install SIGHUP Sighup_handler s;
          s = snd (signal SIGPIPE SIG_IGN s);
          s = install SIGINT Sigint_handler s;
          s = snd (signal SIGUSR1 Sigusr1_handler s);
          s = snd (signal SIGUSR2 Sigusr2_handler s)
      in snd (signal SIGCHLD Parent_exit s))"

subsection \<open>Detaching\<close>

text \<open>
  \<open>sleep(n)\<close> ends early when a signal arrives: the signal is delivered, and if its
  handler returns, so does \<open>sleep\<close>.
\<close>

definition sleep :: "env \<Rightarrow> nat \<Rightarrow> proc \<Rightarrow> proc" where
  "sleep e n s =
     (case sleep_sig e of
        None \<Rightarrow> emit (Sleep n) s
      | Some sig \<Rightarrow> deliver e sig (emit (Sleep n) s))"

text \<open>
  \<open>detach\<close>: detach from the current terminal, write the PID file, kill the parent.
  \<open>fork\<close> returns a negative number when it fails, the child's pid in the parent and 0
  in the child, whose own pid is \<open>child_pid\<close>. The parent never returns from \<open>detach\<close>:
  the result paired with its final state is not read. The part after the fork is
  \<open>detach_child\<close> (it is also what runs when the daemon does not detach), its last
  lines \<open>detach_tail\<close>. Memory never runs out here, so the handler \<open>memory_full\<close>
  that \<open>detach\<close> installs for the allocator is never called.
\<close>

definition detach_tail :: "env \<Rightarrow> proc \<Rightarrow> int \<times> proc" where
  "detach_tail e s0 =
     (let s = emit (Chdir ''/'') s0;
          s = emit (Openlog (identname s)) s;
          s = (if debug_lvl s > 1
               then emit (Syslog (''tincd '' @ VERSION e @ '' ('' @ DATE e @ '' '' @ TIME e
                      @ '') starting, debug level '' @ show_int (debug_lvl s) @ ''.'')) s
               else emit (Syslog (''tincd '' @ VERSION e @ '' starting, debug level ''
                      @ show_int (debug_lvl s) @ ''.'')) s)
      in (0, s))"

definition detach_child :: "env \<Rightarrow> proc \<Rightarrow> int \<times> proc" where
  "detach_child e s0 =
     (case write_pidfile e s0 of
        (w, s1) \<Rightarrow>
          if w \<noteq> 0 then (- 1, s1)
          else if do_detach s1
          then (let s2 = emit Open_tty s1
                in if tty_fd e \<ge> 0 \<and> ioctl_ret e \<noteq> 0
                   then (- 1, emit (Perror ''ioctl'') (emit Notty s2))
                   else (let s3 = (if tty_fd e \<ge> 0 then emit Notty s2 else s2);
                             s4 = emit Setsid s3
                         in if setsid_ret e < 0 then (- 1, s4)
                            else detach_tail e (snd (kill e (ppid s4) SIGTERM s4))))
          else detach_tail e s1)"

definition detach :: "env \<Rightarrow> proc \<Rightarrow> int \<times> proc" where
  "detach e s0 =
     (if do_detach s0
      then (let s = emit Fork (s0\<lparr>ppid := self s0\<rparr>)
            in if fork_ret e < 0 then (- 1, emit (Perror ''fork'') s)
               else if fork_ret e \<noteq> 0
               then (let s = snd (signal SIGTERM Parent_exit s);
                         s = sleep e 600 s
                     in (0, if alive s then exit 1 s else s))
               else detach_child e (s\<lparr>self := child_pid e\<rparr>))
      else detach_child e s0)"

subsection \<open>Names, options, main\<close>

text \<open>\<open>make_names\<close>: set all files and paths according to the net name.\<close>

definition make_names :: "env \<Rightarrow> proc \<Rightarrow> proc" where
  "make_names e s0 =
     (let s = (case configfilename s0 of
                 Some c \<Rightarrow> s0
               | None \<Rightarrow>
                   (case netname s0 of
                      Some n \<Rightarrow>
                        s0\<lparr>configfilename := Some (CONFDIR e @ ''/tinc/'' @ n @ ''/tincd.conf'')\<rparr>
                    | None \<Rightarrow> s0\<lparr>configfilename := Some (CONFDIR e @ ''/tinc/tincd.conf'')\<rparr>))
      in case netname s of
           Some n \<Rightarrow>
             s\<lparr>pidfilename := ''/var/run/tincd.'' @ n @ ''.pid'',
               confbase := CONFDIR e @ ''/tinc/'' @ n @ ''/'',
               identname := ''tincd.'' @ n\<rparr>
         | None \<Rightarrow>
             s\<lparr>pidfilename := ''/var/run/tincd.pid'',
               confbase := CONFDIR e @ ''/tinc/'',
               identname := ''tincd''\<rparr>)"

text \<open>\<open>usage\<close> prints to stderr or to stdout, and exits with the status it is given.\<close>

definition usage :: "int \<Rightarrow> proc \<Rightarrow> proc" where
  "usage st s =
     exit st
       (if st \<noteq> 0
        then emit (Stderr (''Try `'' @ program_name s @ '' --help'' @ [CHR 0x27]
               @ '' for more information.'' @ nl)) s
        else emit (Stdout (''Report bugs to zarq@iname.com.'' @ nl))
               (emit (Stdout (''      --help            Display this help and exit.'' @ nl
                   @ ''      --version         Output version information and exit.'' @ nl @ nl))
                 (emit (Stdout (''  -c, --config=FILE     Read configuration options from FILE.'' @ nl
                     @ ''  -D, --no-detach       Don'' @ [CHR 0x27] @ ''t fork and detach.'' @ nl
                     @ ''  -d                    Increase debug level.'' @ nl
                     @ ''  -k, --kill            Attempt to kill a running tincd and exit.'' @ nl
                     @ ''  -n, --net=NETNAME     Connect to net NETNAME.'' @ nl
                     @ ''  -t, --timeout=TIMEOUT Seconds to wait before giving a timeout.'' @ nl))
                   (emit (Stdout (''Usage: '' @ program_name s @ '' [option]...'' @ nl @ nl)) s))))"

text \<open>
  What one call of \<open>getopt_long\<close> returns for the option string \<open>c:Ddkn:t:\<close> and the
  table \<open>long_options\<close>: 0 after setting the flag of \<open>--help\<close>, \<open>--version\<close> or
  \<open>--no-detach\<close>, otherwise the option character with its argument (\<open>k\<close> for \<open>--kill\<close>,
  \<open>n\<close> for \<open>--net\<close>, \<open>p\<close> for \<open>--timeout\<close>, \<open>?\<close> for an option it does not know).
  The list handed to \<open>parse_options\<close> is the sequence of these results up to \<open>EOF\<close>;
  \<open>switch_opt\<close> is the \<open>switch\<close> in the body of its loop, which \<open>usage\<close> leaves by
  ending the process.
\<close>

datatype getopt_ret = Long_help | Long_version | Long_no_detach | Opt char string

text \<open>
  \<open>add_config_val\<close> (conf.c, not among the sources) refuses a timeout that is not a number:
  the environment's \<open>timeout_ok\<close>; an accepted value is appended to the configuration.
\<close>

fun switch_opt :: "env \<Rightarrow> getopt_ret \<Rightarrow> proc \<Rightarrow> proc" where
  "switch_opt e Long_help s = s\<lparr>show_help := True\<rparr>"
| "switch_opt e Long_version s = s\<lparr>show_version := True\<rparr>"
| "switch_opt e Long_no_detach s = s\<lparr>do_detach := False\<rparr>"
| "switch_opt e (Opt r optarg) s =
     (if r = CHR ''c'' then s\<lparr>configfilename := Some optarg\<rparr>
      else if r = CHR ''D'' then s\<lparr>do_detach := False\<rparr>
      else if r = CHR ''d'' then s\<lparr>debug_lvl := debug_lvl s + 1\<rparr>
      else if r = CHR ''k'' then s\<lparr>kill_tincd := True\<rparr>
      else if r = CHR ''n'' then s\<lparr>netname := Some optarg\<rparr>
      else if r = CHR ''t''
      then (if timeout_ok e optarg then s\<lparr>config := config s @ [optarg]\<rparr>
            else usage 1 (emit (Stdout (''Invalid timeout value `'' @ optarg @ [CHR 0x27]
                   @ ''.'' @ nl)) s))
      else if r = CHR ''?'' then usage 1 s
      else s)"

fun parse_options :: "env \<Rightarrow> getopt_ret list \<Rightarrow> proc \<Rightarrow> proc" where
  "parse_options e [] s = s"
| "parse_options e (r # rs) s =
     (let s' = switch_opt e r s in if alive s' then parse_options e rs s' else s')"

text \<open>
  Modelled from the spec: \<open>main_loop\<close> of net.c, which is not among the sources.
  Section 4.7: the loop multiplexes the sockets until the daemon is told to stop. All that
  the process lifecycle sees of it is that the signals that arrive meanwhile are
  delivered, one after the other; it returns when none is left.
\<close>

definition main_loop :: "env \<Rightarrow> proc \<Rightarrow> proc" where
  "main_loop e s = fold (deliver e) (arriving e) (emit Main_loop s)"

text \<open>
  \<open>main\<close>, given the results of \<open>getopt_long\<close> for \<open>argv\<close>. A \<open>return c\<close> from \<open>main\<close> ends
  the process with status \<open>c\<close>. \<open>main_daemon\<close> is the part of \<open>main\<close> below
  \<open>exit(kill_other())\<close>, from \<open>read_config_file\<close> on.
\<close>

definition version_text :: "env \<Rightarrow> string" where
  "version_text e =
     PACKAGE e @ '' version '' @ VERSION e @ nl
       @ ''Copyright (C) 1998,99 Ivo Timmermans and others,'' @ nl
       @ ''see the AUTHORS file for a complete list.'' @ nl @ nl
       @ ''tinc comes with ABSOLUTELY NO WARRANTY.  This is free software,'' @ nl
       @ ''and you are welcome to redistribute it under certain conditions;'' @ nl
       @ ''see the file COPYING for details.'' @ nl @ nl"

definition main_daemon :: "env \<Rightarrow> proc \<Rightarrow> proc" where
  "main_daemon e s0 =
     (case read_config_file e (case configfilename s0 of Some c \<Rightarrow> c | None \<Rightarrow> []) s0 of
        (r1, s1) \<Rightarrow>
          if r1 \<noteq> 0 then exit 1 s1
          else (case detach e (setup_signals s1) of
                  (r2, s2) \<Rightarrow>
                    if \<not> alive s2 then s2
                    else if r2 \<noteq> 0 then exit 0 s2
                    else (case security_init e s2 of
                            (r3, s3) \<Rightarrow>
                              if r3 \<noteq> 0 then exit 1 s3
                              else (case setup_network_connections e s3 of
                                      (r4, s4) \<Rightarrow>
                                        if r4 \<noteq> 0 then cleanup_and_exit e 1 s4
                                        else (let s5 = main_loop e s4
                                              in if alive s5 then cleanup_and_exit e 1 s5
                                                 else s5)))))"

definition main :: "env \<Rightarrow> getopt_ret list \<Rightarrow> string list \<Rightarrow> proc \<Rightarrow> proc" where
  "main e opts argv s0 =
     (let s = parse_options e opts (s0\<lparr>program_name := (case argv of [] \<Rightarrow> [] | a # _ \<Rightarrow> a)\<rparr>)
      in if \<not> alive s then s
         else if show_version s
         then exit 0
                (emit (Stdout (''This product includes software developed by Eric Young (eay@mincom.oz.au)'' @ nl))
                  (emit (Stdout (version_text e)) s))
         else if show_help s then usage 0 s
         else if euid e \<noteq> 0
         then exit 1 (emit (Stderr (''You must be root to run this program. sorry.'' @ nl)) s)
         else (let s = make_names e (s\<lparr>g_argv := argv\<rparr>)
               in if kill_tincd s
                  then (case kill_other e s of (r, s') \<Rightarrow> exit r s')
                  else main_daemon e s))"

section \<open>The traffic observer (top.c)\<close>

text \<open>
  \<open>nodestats_t\<close>. The counters are \<open>uint64_t\<close>; the four rates are C floats, here
  real numbers.
\<close>

record nodestats =
  name :: string
  in_packets :: "64 word"
  in_bytes :: "64 word"
  out_packets :: "64 word"
  out_bytes :: "64 word"
  in_packets_rate :: real
  in_bytes_rate :: real
  out_packets_rate :: real
  out_bytes_rate :: real
  known :: bool

text \<open>
  The static variables of top.c that \<open>update\<close> uses (the node list and the time of the
  previous dump), and what the observer process has done so far.
\<close>

record top =
  node_list :: "nodestats list"
  prev :: real
  top_status :: status
  top_trace :: "event list"

text \<open>
  \<open>strcmp\<close> compares the strings as unsigned bytes; the sign of the result is what counts.
\<close>

fun strcmp :: "string \<Rightarrow> string \<Rightarrow> int" where
  "strcmp [] [] = 0"
| "strcmp [] (b # bs) = - of_char b"
| "strcmp (a # as) [] = of_char a"
| "strcmp (a # as) (b # bs) = (if a = b then strcmp as bs else of_char a - of_char b)"

text \<open>
  One line of the dump as \<open>sscanf\<close> leaves it: the number of fields it converted, and the
  seven variables \<open>code\<close>, \<open>req\<close>, \<open>name\<close>, \<open>in_packets\<close>, \<open>in_bytes\<close>, \<open>out_packets\<close>,
  \<open>out_bytes\<close>.
\<close>

datatype line = Line int int int string "64 word" "64 word" "64 word" "64 word"

text \<open>\<open>xmalloc_and_zero\<close> followed by \<open>found->name = xstrdup(name)\<close>.\<close>

definition new_node :: "string \<Rightarrow> nodestats" where
  "new_node nm =
     \<lparr> name = nm, in_packets = 0, in_bytes = 0, out_packets = 0, out_bytes = 0,
       in_packets_rate = 0, in_bytes_rate = 0, out_packets_rate = 0, out_bytes_rate = 0,
       known = False \<rparr>"

text \<open>
  The inner \<open>for\<close> loop of \<open>update\<close> over the node list (list.c is not among the sources:
  \<open>list_insert_after(list, i, data)\<close> links a new element directly behind the element
  \<open>i\<close>, \<open>list_insert_tail\<close> appends one). The result is the position of \<open>found\<close> in the
  list the loop leaves, or \<open>None\<close> when \<open>found\<close> is still \<open>NULL\<close>.
\<close>

fun find_node :: "string \<Rightarrow> nodestats list \<Rightarrow> nat option \<times> nodestats list" where
  "find_node nm [] = (None, [])"
| "find_node nm (node # rest) =
     (let result = strcmp nm (name node)
      in if result > 0
         then (case find_node nm rest of (f, rest') \<Rightarrow> (map_option Suc f, node # rest'))
         else if result = 0 then (Some 0, node # rest)
         else (Some 1, node # new_node nm # rest))"

text \<open>
  The assignments to \<open>found\<close> at the end of the loop body. The subtraction wraps as
  \<open>uint64_t\<close> does. Where C divides by an interval of zero and gets an infinity or a
  NaN, the quotient here is 0; nothing below reads the rates.
\<close>

definition store ::
  "real \<Rightarrow> 64 word \<Rightarrow> 64 word \<Rightarrow> 64 word \<Rightarrow> 64 word \<Rightarrow> nodestats \<Rightarrow> nodestats" where
  "store interval ip ib op ob found =
     found\<lparr> known := True,
            in_packets_rate := real (unat (ip - in_packets found)) / interval,
            in_bytes_rate := real (unat (ib - in_bytes found)) / interval,
            out_packets_rate := real (unat (op - out_packets found)) / interval,
            out_bytes_rate := real (unat (ob - out_bytes found)) / interval,
            in_packets := ip, in_bytes := ib, out_packets := op, out_bytes := ob \<rparr>"

text \<open>One pass of the \<open>while\<close> body for a line with seven fields.\<close>

definition account ::
  "real \<Rightarrow> string \<Rightarrow> 64 word \<Rightarrow> 64 word \<Rightarrow> 64 word \<Rightarrow> 64 word \<Rightarrow> nodestats list
     \<Rightarrow> nodestats list" where
  "account interval nm ip ib op ob nodes =
     (case find_node nm nodes of
        (None, nodes') \<Rightarrow> nodes' @ [store interval ip ib op ob (new_node nm)]
      | (Some i, nodes') \<Rightarrow> nodes'[i := store interval ip ib op ob (nodes' ! i)])"

text \<open>
  The \<open>while\<close> loop over the lines that \<open>recvline\<close> delivers; it also ends when there is
  no further line.
\<close>

fun recv_loop :: "real \<Rightarrow> line list \<Rightarrow> top \<Rightarrow> top" where
  "recv_loop interval [] t = t"
| "recv_loop interval (Line n code req nm ip ib op ob # rest) t =
     (if n = 2 then t
      else if n \<noteq> 7
      then t\<lparr> top_status := Exited 1,
              top_trace := top_trace t
                @ [Endwin, Stderr (''Error receiving traffic information'' @ nl)] \<rparr>
      else recv_loop interval rest
             (t\<lparr>node_list := account interval nm ip ib op ob (node_list t)\<rparr>))"

text \<open>
  \<open>update\<close>, given the values of the constants \<open>CONTROL\<close> and \<open>REQ_DUMP_TRAFFIC\<close>
  (control_common.h is not among the sources), the time of day and the lines that the
  daemon answers.
\<close>

definition update :: "int \<Rightarrow> int \<Rightarrow> real \<Rightarrow> line list \<Rightarrow> top \<Rightarrow> top" where
  "update control req_dump_traffic now lines t0 =
     (let t = t0\<lparr>top_trace := top_trace t0
                   @ [Sendline (show_int control @ '' '' @ show_int req_dump_traffic)]\<rparr>;
          interval = now - prev t;
          t = t\<lparr>prev := now\<rparr>;
          t = t\<lparr>node_list := map (\<lambda>node. node\<lparr>known := False\<rparr>) (node_list t)\<rparr>
      in recv_loop interval lines t)"

text \<open>The node list is in order when the names ascend under \<open>strcmp\<close>.\<close>

definition ordered :: "nodestats list \<Rightarrow> bool" where
  "ordered nodes = sorted_wrt (\<lambda>a b. strcmp (name a) (name b) \<le> 0) nodes"

section \<open>Observations and scenarios\<close>

text \<open>The dispositions that \<open>setup_signals\<close> leaves behind, as one table.\<close>

definition signal_table :: "(nat \<Rightarrow> handler) \<Rightarrow> nat \<Rightarrow> handler" where
  "signal_table old i =
     (if i = SIGCHLD then Parent_exit else if i = SIGUSR2 then Sigusr2_handler
      else if i = SIGUSR1 then Sigusr1_handler else if i = SIGINT then Sigint_handler
      else if i = SIGPIPE then SIG_IGN else if i = SIGHUP then Sighup_handler
      else if i = SIGSEGV then Sigsegv_handler else if i = SIGQUIT then Sigquit_handler
      else if i = SIGTERM then Sigterm_handler
      else if i < 32 \<and> catchable i then Sighuh else old i)"

text \<open>How often the process has called \<open>execvp\<close>.\<close>

fun is_execvp :: "event \<Rightarrow> bool" where
  "is_execvp (Execvp argv) = True"
| "is_execvp ev = False"

definition execs :: "proc \<Rightarrow> nat" where
  "execs s = length (filter is_execvp (trace s))"

text \<open>The number of fields that \<open>sscanf\<close> converted in a line.\<close>

fun converted :: "line \<Rightarrow> int" where
  "converted (Line n code req nm ip ib op ob) = n"

text \<open>
  A machine on which everything works: root runs \<open>tincd -n v1 -D\<close> as process 4300,
  process 4242 exists and no other does, the configuration file is there and empty, one
  peer is reached.
\<close>

definition env0 :: env where
  "env0 =
     \<lparr> CONFDIR = ''/etc'', PACKAGE = ''tinc'', VERSION = ''1.0'', DATE = ''Jan  1 2000'',
       TIME = ''00:00:00'', euid = 0, kill_errno = (\<lambda>p. if p = 4242 then 0 else ESRCH),
       fork_ret = 0, child_pid = 4301, sleep_sig = None, execvp_ok = True,
       pid_creatable = True, conf_disk = (\<lambda>f. Some []), timeout_ok = (\<lambda>a. True),
       security_ok = True, net_setup = Some [''peer''], tty_fd = 3, ioctl_ret = 0,
       setsid_ret = 0, arriving = [] \<rparr>"

definition v1_pid :: string where
  "v1_pid = ''/var/run/tincd.v1.pid''"

definition v1_opts :: "getopt_ret list" where
  "v1_opts = [Opt CHR ''n'' ''v1'', Opt CHR ''D'' []]"

definition v1_argv :: "string list" where
  "v1_argv = [''tincd'', ''-n'', ''v1'', ''-D'']"

text \<open>The daemon of that run at the moment it enters the main loop.\<close>

definition up0 :: proc where
  "up0 =
     \<lparr> program_name = ''tincd'', show_help = False, show_version = False,
       kill_tincd = False, do_detach = False, debug_lvl = 0,
       configfilename = Some ''/etc/tinc/v1/tincd.conf'', netname = Some ''v1'',
       pidfilename = ''/var/run/tincd.v1.pid'', confbase = ''/etc/tinc/v1/'',
       identname = ''tincd.v1'', ppid = 0, g_argv = [''tincd'', ''-n'', ''v1'', ''-D''],
       cp_file = None, cp_line = 0, config = [],
       total_tap_out = 0, total_socket_out = 0, total_tap_in = 0, total_socket_in = 0,
       errno = 0, self = 4300, status = Running,
       handlers = signal_table (\<lambda>i. SIG_DFL),
       trace = [Read_config_file ''/etc/tinc/v1/tincd.conf'',
                Write_pid ''/var/run/tincd.v1.pid'', Chdir ''/'', Openlog ''tincd.v1'',
                Syslog ''tincd 1.0 starting, debug level 0.'', Security_init,
                Setup_network_connections],
       pidfiles = [''/var/run/tincd.v1.pid'' \<mapsto> 4300], conns = [''peer''],
       plane_up = True \<rparr>"

text \<open>An observer that has not seen any node yet.\<close>

definition top0 :: top where
  "top0 = \<lparr> node_list = [], prev = 0, top_status = Running, top_trace = [] \<rparr>"

text \<open>Runs of the daemon of that machine that are ended by one signal in the main loop.\<close>

definition run_term :: proc where
  "run_term = main (env0\<lparr>arriving := [SIGTERM]\<rparr>) v1_opts v1_argv (boot 4300 Map.empty)"

definition run_quit :: proc where
  "run_quit = main (env0\<lparr>arriving := [SIGQUIT]\<rparr>) v1_opts v1_argv (boot 4300 Map.empty)"

definition run_int :: proc where
  "run_int = main (env0\<lparr>arriving := [SIGINT]\<rparr>) v1_opts v1_argv (boot 4300 Map.empty)"

text \<open>
  Further scenarios: the same invocation by an ordinary user asking for the version; the
  invocation \<open>tincd -n v1 -k\<close>; the supervising parent of a detaching daemon, whose
  \<open>sleep\<close> is ended by the given signal or runs out; and a machine on which the
  configuration file has changed since the daemon read it.
\<close>

definition run_version :: proc where
  "run_version =
     main (env0\<lparr>euid := 1000\<rparr>) [Long_version] [''tincd'', ''--version''] (boot 4300 Map.empty)"

definition kill_opts :: "getopt_ret list" where
  "kill_opts = [Opt CHR ''n'' ''v1'', Opt CHR ''k'' []]"

definition kill_argv :: "string list" where
  "kill_argv = [''tincd'', ''-n'', ''v1'', ''-k'']"

definition run_parent :: "nat option \<Rightarrow> proc" where
  "run_parent sig =
     main (env0\<lparr>fork_ret := 4301, sleep_sig := sig\<rparr>) [Opt CHR ''n'' ''v1'']
       [''tincd'', ''-n'', ''v1''] (boot 4300 Map.empty)"

definition env_newconf :: env where
  "env_newconf = env0\<lparr>conf_disk := (\<lambda>f. Some [''ConnectTo = bravo''])\<rparr>"

text \<open>A dump of two nodes, \<open>b\<close> before \<open>a\<close>, closed by the line without operands.\<close>

definition dump_b_a :: "line list" where
  "dump_b_a =
     [Line 7 18 13 ''b'' 1 2 3 4, Line 7 18 13 ''a'' 5 6 7 8, Line 2 18 13 ''a'' 5 6 7 8]"





section \<open>Properties\<close>

subsection \<open>Auxiliary facts\<close>

lemmas signal_numbers =
  SIGHUP_def SIGINT_def SIGQUIT_def SIGKILL_def SIGUSR1_def SIGSEGV_def SIGUSR2_def
  SIGPIPE_def SIGTERM_def SIGCHLD_def SIGCONT_def SIGSTOP_def SIGTSTP_def SIGTTIN_def
  SIGTTOU_def SIGURG_def SIGWINCH_def

lemma fold_sighuh:
  "fold (\<lambda>i s. snd (signal i Sighuh s)) [0..<n] s =
     s\<lparr>handlers := (\<lambda>i. if i < n \<and> catchable i then Sighuh else handlers s i)\<rparr>"
proof (induction n)
  case 0
  show ?case by simp
next
  case (Suc n)
  have "(\<lambda>i. if i < Suc n \<and> catchable i then Sighuh else handlers s i) =
        (if catchable n then (\<lambda>i. if i < n \<and> catchable i then Sighuh else handlers s i)(n := Sighuh)
         else (\<lambda>i. if i < n \<and> catchable i then Sighuh else handlers s i))"
    by (auto simp: fun_eq_iff less_Suc_eq)
  with Suc show ?case by (simp add: signal_def)
qed

lemma setup_signals_eq: "setup_signals s = s\<lparr>handlers := signal_table (handlers s)\<rparr>"
proof -
  have "(\<lambda>i. if i < 32 \<and> catchable i then Sighuh else handlers s i)
          (SIGTERM := Sigterm_handler, SIGQUIT := Sigquit_handler, SIGSEGV := Sigsegv_handler,
           SIGHUP := Sighup_handler, SIGPIPE := SIG_IGN, SIGINT := Sigint_handler,
           SIGUSR1 := Sigusr1_handler, SIGUSR2 := Sigusr2_handler, SIGCHLD := Parent_exit)
        = signal_table (handlers s)"
    by (auto simp: fun_eq_iff signal_table_def)
  then show ?thesis
    unfolding setup_signals_def fold_sighuh
    by (simp add: install_def signal_def catchable_def signal_numbers Let_def)
qed

lemma env0_simps [simp]:
  "CONFDIR env0 = ''/etc''" "euid env0 = 0" "kill_errno env0 p = (if p = 4242 then 0 else ESRCH)"
  "fork_ret env0 = 0" "child_pid env0 = 4301" "sleep_sig env0 = None" "execvp_ok env0"
  "pid_creatable env0" "conf_disk env0 f = Some []" "timeout_ok env0 a" "security_ok env0"
  "net_setup env0 = Some [''peer'']" "tty_fd env0 = 3" "ioctl_ret env0 = 0" "setsid_ret env0 = 0"
  "arriving env0 = []" "VERSION env0 = ''1.0''" "PACKAGE env0 = ''tinc''"
  by (simp_all add: env0_def)

lemmas run_defs = main_def main_daemon_def make_names_def boot_def v1_pid_def v1_opts_def v1_argv_def
  alive_def emit_def exit_def
  read_config_file_def detach_def detach_child_def detach_tail_def write_pidfile_def check_pid_def read_pid_def
  write_pid_def kill_def usage_def setup_signals_eq show_int_def digits.simps nl_def ESRCH_def
  security_init_def setup_network_connections_def kill_other_def remove_pid_def

lemma env0_arriving_simps [simp]:
  "CONFDIR (env0\<lparr>arriving := sigs\<rparr>) = ''/etc''" "euid (env0\<lparr>arriving := sigs\<rparr>) = 0"
  "kill_errno (env0\<lparr>arriving := sigs\<rparr>) p = (if p = 4242 then 0 else ESRCH)"
  "pid_creatable (env0\<lparr>arriving := sigs\<rparr>)" "conf_disk (env0\<lparr>arriving := sigs\<rparr>) f = Some []"
  "security_ok (env0\<lparr>arriving := sigs\<rparr>)"
  "net_setup (env0\<lparr>arriving := sigs\<rparr>) = Some [''peer'']"
  "VERSION (env0\<lparr>arriving := sigs\<rparr>) = ''1.0''"
  by (simp_all add: env0_def)

lemma main_enters_loop:
  "main (env0\<lparr>arriving := sigs\<rparr>) v1_opts v1_argv (boot 4300 Map.empty) =
     (let s = fold (deliver (env0\<lparr>arriving := sigs\<rparr>)) sigs (emit Main_loop up0)
      in if alive s then cleanup_and_exit (env0\<lparr>arriving := sigs\<rparr>) 1 s else s)"
proof -
  define e where "e = env0\<lparr>arriving := sigs\<rparr>"
  have sel: "CONFDIR e = ''/etc''" "euid e = 0" "pid_creatable e" "\<And>f. conf_disk e f = Some []"
    "security_ok e" "net_setup e = Some [''peer'']" "VERSION e = ''1.0''" "arriving e = sigs"
    "\<And>p. kill_errno e p = (if p = 4242 then 0 else ESRCH)"
    by (simp_all add: e_def env0_def)
  have "main e v1_opts v1_argv (boot 4300 Map.empty) =
     (let s = fold (deliver e) sigs (emit Main_loop up0)
      in if alive s then cleanup_and_exit e 1 s else s)"
    by (simp add: run_defs main_loop_def up0_def sel)
  then show ?thesis by (simp only: e_def)
qed

lemma up0_simps [simp]:
  "status up0 = Running" "debug_lvl up0 = 0" "conns up0 = [''peer'']" "ppid up0 = 0"
  "pidfiles up0 = [''/var/run/tincd.v1.pid'' \<mapsto> 4300]" "config up0 = []"
  "pidfilename up0 = ''/var/run/tincd.v1.pid''" "cp_file up0 = None"
  "g_argv up0 = [''tincd'', ''-n'', ''v1'', ''-D'']" "plane_up up0"
  "handlers up0 = signal_table (\<lambda>i. SIG_DFL)"
  "trace up0 = [Read_config_file ''/etc/tinc/v1/tincd.conf'',
                Write_pid ''/var/run/tincd.v1.pid'', Chdir ''/'', Openlog ''tincd.v1'',
                Syslog ''tincd 1.0 starting, debug level 0.'', Security_init,
                Setup_network_connections]"
  by (simp_all add: up0_def)

lemma signal_table_simps [simp]:
  "signal_table old SIGTERM = Sigterm_handler" "signal_table old SIGQUIT = Sigquit_handler"
  "signal_table old SIGINT = Sigint_handler" "signal_table old SIGHUP = Sighup_handler"
  "signal_table old SIGSEGV = Sigsegv_handler" "signal_table old SIGUSR1 = Sigusr1_handler"
  "signal_table old SIGUSR2 = Sigusr2_handler" "signal_table old SIGCHLD = Parent_exit"
  "signal_table old SIGPIPE = SIG_IGN"
  by (simp_all add: signal_table_def signal_numbers)

lemma emit_fields [simp]:
  "status (emit ev s) = status s" "pidfiles (emit ev s) = pidfiles s"
  "conns (emit ev s) = conns s" "plane_up (emit ev s) = plane_up s"
  "handlers (emit ev s) = handlers s" "config (emit ev s) = config s"
  "trace (emit ev s) = trace s @ [ev]" "debug_lvl (emit ev s) = debug_lvl s"
  "ppid (emit ev s) = ppid s" "pidfilename (emit ev s) = pidfilename s"
  "g_argv (emit ev s) = g_argv s" "cp_file (emit ev s) = cp_file s"
  "netname (emit ev s) = netname s" "totals_line (emit ev s) = totals_line s"
  "cp_line (emit ev s) = cp_line s"
  by (simp_all add: emit_def totals_line_def)

lemma cleanup_and_exit_fields [simp]:
  "status (cleanup_and_exit e c s) = Exited c"
  "pidfiles (cleanup_and_exit e c s) = pidfiles s"
  "conns (cleanup_and_exit e c s) = []"
  "plane_up (cleanup_and_exit e c s) = False"
  "handlers (cleanup_and_exit e c s) = handlers s"
  "config (cleanup_and_exit e c s) = config s"
  "trace (cleanup_and_exit e c s) =
     trace s @ [Close_network_connections]
       @ (if debug_lvl s > 0 then [Syslog (totals_line s)] else [])
       @ [Closelog, Kill (ppid s) SIGTERM]"
  by (simp_all add: cleanup_and_exit_def close_network_connections_def kill_def emit_def
        exit_def Let_def totals_line_def)

lemma term_handlers_fields [simp]:
  "status (sigterm_handler e s) = Exited 0" "status (sigquit_handler e s) = Exited 0"
  "status (sigint_handler e s) = Exited 0"
  "pidfiles (sigterm_handler e s) = pidfiles s" "pidfiles (sigquit_handler e s) = pidfiles s"
  "pidfiles (sigint_handler e s) = pidfiles s"
  "conns (sigterm_handler e s) = []" "conns (sigquit_handler e s) = []"
  "conns (sigint_handler e s) = []"
  "plane_up (sigterm_handler e s) = False" "plane_up (sigquit_handler e s) = False"
  "plane_up (sigint_handler e s) = False"
  "handlers (sigterm_handler e s) = handlers s" "handlers (sigquit_handler e s) = handlers s"
  "handlers (sigint_handler e s) = handlers s"
  "config (sigterm_handler e s) = config s" "config (sigquit_handler e s) = config s"
  "config (sigint_handler e s) = config s"
  by (simp_all add: sigterm_handler_def sigquit_handler_def sigint_handler_def)

lemma term_handlers_trace:
  "trace (sigterm_handler e s) =
     trace s @ (if debug_lvl s > 0 then [Syslog ''Got TERM signal''] else [])
       @ [Close_network_connections]
       @ (if debug_lvl s > 0 then [Syslog (totals_line s)] else [])
       @ [Closelog, Kill (ppid s) SIGTERM]"
  "trace (sigquit_handler e s) =
     trace s @ (if debug_lvl s > 0 then [Syslog ''Got QUIT signal''] else [])
       @ [Close_network_connections]
       @ (if debug_lvl s > 0 then [Syslog (totals_line s)] else [])
       @ [Closelog, Kill (ppid s) SIGTERM]"
  "trace (sigint_handler e s) =
     trace s @ (if debug_lvl s > 0 then [Syslog ''Got INT signal''] else [])
       @ [Close_network_connections]
       @ (if debug_lvl s > 0 then [Syslog (totals_line s)] else [])
       @ [Closelog, Kill (ppid s) SIGTERM]"
  by (simp_all add: sigterm_handler_def sigquit_handler_def sigint_handler_def)

lemma deliver_up0 [simp]:
  "deliver e SIGTERM (emit ev up0) = sigterm_handler e (emit ev up0)"
  "deliver e SIGQUIT (emit ev up0) = sigquit_handler e (emit ev up0)"
  "deliver e SIGINT (emit ev up0) = sigint_handler e (emit ev up0)"
  "deliver e SIGTERM up0 = sigterm_handler e up0"
  "deliver e SIGHUP up0 = sighup_handler e up0"
  by (simp_all add: deliver_def alive_def)

lemma make_names_fields [simp]:
  "kill_tincd (make_names e s) = kill_tincd s" "status (make_names e s) = status s"
  "trace (make_names e s) = trace s" "pidfiles (make_names e s) = pidfiles s"
  "netname (make_names e s) = netname s" "conns (make_names e s) = conns s"
  "pidfilename (make_names e s) =
     (case netname s of Some n \<Rightarrow> ''/var/run/tincd.'' @ n @ ''.pid''
      | None \<Rightarrow> ''/var/run/tincd.pid'')"
  by (simp_all add: make_names_def Let_def split: option.splits)

lemma usage_dead [simp]: "status (usage c s) = Exited c"
  by (simp add: usage_def exit_def)

lemma usage_fields [simp]:
  "pidfiles (usage c s) = pidfiles s" "conns (usage c s) = conns s"
  "plane_up (usage c s) = plane_up s" "handlers (usage c s) = handlers s"
  by (simp_all add: usage_def exit_def)

lemma switch_opt_frame [simp]:
  "pidfiles (switch_opt e r s) = pidfiles s" "conns (switch_opt e r s) = conns s"
  "plane_up (switch_opt e r s) = plane_up s" "handlers (switch_opt e r s) = handlers s"
  by (cases r; simp)+

lemma switch_opt_alive:
  "alive (switch_opt e r s) \<Longrightarrow> trace (switch_opt e r s) = trace s \<and> alive s"
  by (cases r) (auto simp: alive_def split: if_splits)

lemma parse_options_frame [simp]:
  "pidfiles (parse_options e opts s) = pidfiles s"
  "conns (parse_options e opts s) = conns s"
  "plane_up (parse_options e opts s) = plane_up s"
  "handlers (parse_options e opts s) = handlers s"
  by (induction opts arbitrary: s; simp add: Let_def)+

lemma parse_options_alive:
  "alive (parse_options e opts s) \<Longrightarrow>
     trace (parse_options e opts s) = trace s \<and> alive s"
proof (induction opts arbitrary: s)
  case Nil
  then show ?case by simp
next
  case (Cons r rs)
  show ?case
  proof (cases "alive (switch_opt e r s)")
    case True
    with Cons.prems have "alive (parse_options e rs (switch_opt e r s))"
      by simp
    from Cons.IH [OF this] switch_opt_alive [OF True] True show ?thesis
      by simp
  next
    case False
    with Cons.prems show ?thesis by simp
  qed
qed

lemma kill_other_eq:
  "kill_other e s =
     (let pid = read_pid (pidfilename s) s
      in if pid = 0
         then (1, emit (Stderr (case netname s of
                   Some n \<Rightarrow> ''No other tincd is running for net `'' @ n @ [CHR 0x27] @ ''.'' @ nl
                 | None \<Rightarrow> ''No other tincd is running.'' @ nl)) s)
         else (0, s\<lparr>errno := kill_errno e pid,
                   trace := trace s @ (if kill_errno e pid = ESRCH
                     then [Kill pid SIGTERM, Stderr (''Removing stale lock file.'' @ nl),
                           Remove_pid (pidfilename s)]
                     else [Kill pid SIGTERM, Remove_pid (pidfilename s)]),
                   pidfiles := (pidfiles s)(pidfilename s := None)\<rparr>))"
  by (simp add: kill_other_def Let_def kill_def emit_def remove_pid_def ESRCH_def
        split: option.splits)

lemma sighup_handler_fields [simp]:
  "status (sighup_handler e s) = status s" "config (sighup_handler e s) = config s"
  "pidfiles (sighup_handler e s) = pidfiles s" "handlers (sighup_handler e s) = handlers s"
  "conns (sighup_handler e s) = (case net_setup e of None \<Rightarrow> [] | Some peers \<Rightarrow> peers)"
  "plane_up (sighup_handler e s) = (net_setup e \<noteq> None)"
  "trace (sighup_handler e s) =
     trace s @ (if debug_lvl s > 0 then [Syslog ''Got HUP signal''] else [])
       @ [Close_network_connections, Setup_network_connections]"
  by (simp_all add: sighup_handler_def close_network_connections_def
        setup_network_connections_def emit_def Let_def split: option.splits)

lemma deliver_after_setup:
  assumes "alive s"
  shows "deliver e SIGTERM (setup_signals s) = sigterm_handler e (setup_signals s)"
    and "deliver e SIGQUIT (setup_signals s) = sigquit_handler e (setup_signals s)"
    and "deliver e SIGINT (setup_signals s) = sigint_handler e (setup_signals s)"
    and "deliver e SIGHUP (setup_signals s) = sighup_handler e (setup_signals s)"
    and "deliver e SIGUSR1 (setup_signals s) = sigusr1_handler (setup_signals s)"
    and "deliver e SIGUSR2 (setup_signals s) = sigusr2_handler (setup_signals s)"
    and "deliver e SIGSEGV (setup_signals s) = sigsegv_handler e (setup_signals s)"
    and "deliver e SIGCHLD (setup_signals s) = parent_exit (setup_signals s)"
  using assms by (simp_all add: deliver_def setup_signals_eq alive_def)

lemma setup_signals_fields [simp]:
  "status (setup_signals s) = status s" "trace (setup_signals s) = trace s"
  "debug_lvl (setup_signals s) = debug_lvl s" "ppid (setup_signals s) = ppid s"
  "totals_line (setup_signals s) = totals_line s" "pidfiles (setup_signals s) = pidfiles s"
  "pidfilename (setup_signals s) = pidfilename s" "g_argv (setup_signals s) = g_argv s"
  "cp_file (setup_signals s) = cp_file s" "cp_line (setup_signals s) = cp_line s"
  "config (setup_signals s) = config s" "conns (setup_signals s) = conns s"
  "handlers (setup_signals s) = signal_table (handlers s)"
  by (simp_all add: setup_signals_eq totals_line_def)

lemma run_parent_eq:
  "run_parent sig =
     (let s = sleep (env0\<lparr>fork_ret := 4301, sleep_sig := sig\<rparr>) 600
                ((boot 4300 Map.empty)
                  \<lparr> program_name := ''tincd'', netname := Some ''v1'',
                    configfilename := Some ''/etc/tinc/v1/tincd.conf'',
                    pidfilename := ''/var/run/tincd.v1.pid'', confbase := ''/etc/tinc/v1/'',
                    identname := ''tincd.v1'', g_argv := [''tincd'', ''-n'', ''v1''],
                    ppid := 4300,
                    handlers := (signal_table (\<lambda>i. SIG_DFL))(SIGTERM := Parent_exit),
                    trace := [Read_config_file ''/etc/tinc/v1/tincd.conf'', Fork] \<rparr>)
      in if alive s then exit 1 s else s)"
proof -
  define e where "e = env0\<lparr>fork_ret := 4301, sleep_sig := sig\<rparr>"
  have sel: "CONFDIR e = ''/etc''" "euid e = 0" "\<And>f. conf_disk e f = Some []"
    "fork_ret e = 4301"
    by (simp_all add: e_def env0_def)
  have "main e [Opt CHR ''n'' ''v1''] [''tincd'', ''-n'', ''v1''] (boot 4300 Map.empty) =
     (let s = sleep e 600
                ((boot 4300 Map.empty)
                  \<lparr> program_name := ''tincd'', netname := Some ''v1'',
                    configfilename := Some ''/etc/tinc/v1/tincd.conf'',
                    pidfilename := ''/var/run/tincd.v1.pid'', confbase := ''/etc/tinc/v1/'',
                    identname := ''tincd.v1'', g_argv := [''tincd'', ''-n'', ''v1''],
                    ppid := 4300,
                    handlers := (signal_table (\<lambda>i. SIG_DFL))(SIGTERM := Parent_exit),
                    trace := [Read_config_file ''/etc/tinc/v1/tincd.conf'', Fork] \<rparr>)
      in if alive s then exit 1 s else s)"
    by (simp add: main_def main_daemon_def make_names_def boot_def alive_def emit_def
          read_config_file_def detach_def setup_signals_eq signal_def catchable_def
          signal_numbers sel exit_def Let_def)
  then show ?thesis by (simp only: run_parent_def e_def)
qed

lemma sigsegv_handler_fields [simp]:
  "handlers (sigsegv_handler e s) = (handlers s)(SIGSEGV := Sigsegv_square)"
  "conns (sigsegv_handler e s) = []" "plane_up (sigsegv_handler e s) = False"
  "pidfiles (sigsegv_handler e s) = (pidfiles s)(pidfilename s := None)"
  "status (sigsegv_handler e s) = (if execvp_ok e then Execed (g_argv s) else status s)"
  "trace (sigsegv_handler e s) =
     trace s @ [Syslog (case cp_file s of
                   Some f \<Rightarrow> ''Got SEGV signal after '' @ f @ '' line ''
                     @ show_int (cp_line s) @ ''. Trying to re-execute.''
                 | None \<Rightarrow> ''Got SEGV signal; trying to re-execute.''),
                Close_network_connections, Remove_pid (pidfilename s), Execvp (g_argv s)]"
  by (simp_all add: sigsegv_handler_def sigsegv_stmts_def run_stmts_def segv_log_def
        signal_def catchable_def signal_numbers
        close_network_connections_def remove_pid_def execvp_def emit_def Let_def
        split: option.splits)

lemma execs_emit [simp]:
  "execs (emit ev s) = (if is_execvp ev then Suc (execs s) else execs s)"
  by (simp add: execs_def emit_def)

lemma execs_trace_eq: "trace s' = trace s \<Longrightarrow> execs s' = execs s"
  by (simp add: execs_def)






lemma find_node_in_range: "find_node nm nodes = (Some i, nodes') \<Longrightarrow> i < length nodes'"
proof (induction nodes arbitrary: i nodes')
  case Nil
  then show ?case by simp
next
  case (Cons node rest)
  show ?case
  proof (cases "strcmp nm (name node) > 0")
    case True
    obtain f rest' where fr: "find_node nm rest = (f, rest')"
      by (cases "find_node nm rest")
    with True Cons.prems obtain j where j: "f = Some j" "i = Suc j" "nodes' = node # rest'"
      by (auto simp: Let_def)
    from Cons.IH [of j rest'] fr j show ?thesis
      by simp
  next
    case False
    with Cons.prems show ?thesis
      by (auto simp: Let_def split: if_splits)
  qed
qed

lemma recv_loop_append:
  "\<forall>l \<in> set pre. converted l = 7 \<Longrightarrow>
     recv_loop iv (pre @ ls) t = recv_loop iv ls (recv_loop iv pre t)"
proof (induction pre arbitrary: t)
  case Nil
  show ?case by simp
next
  case (Cons l pre)
  obtain n code req nm ip ib op ob where l: "l = Line n code req nm ip ib op ob"
    by (cases l)
  with Cons.prems have "n = 7" by simp
  with Cons l show ?case by simp
qed

subsection \<open>A daemon is already running\<close>

text \<open>
  Claim C1, on the code. Process 4242 runs and the PID file of net \<open>v1\<close> names it; root
  starts \<open>tincd -n v1 -D\<close>. The daemon prints ``A tincd is already running for net `v1'
  with pid 4242.'', and the status with which it exits is 0, not 1: \<open>write_pidfile\<close>
  returns 1, \<open>detach\<close> returns -1, and \<open>main\<close> answers with \<open>exit(0)\<close>.
\<close>

theorem already_running_exits_0:
  "status (main env0 v1_opts v1_argv (boot 4300 [v1_pid \<mapsto> 4242])) = Exited 0
   \<and> trace (main env0 v1_opts v1_argv (boot 4300 [v1_pid \<mapsto> 4242])) =
       [Read_config_file ''/etc/tinc/v1/tincd.conf'',
        Stderr (''A tincd is already running for net `v1'' @ [CHR 0x27] @ '' with pid 4242.'' @ nl)]"
  by (simp add: run_defs)

subsection \<open>Killing another daemon\<close>

text \<open>
  Claim C2. The claim speaks of runs in which \<open>kill_other\<close> reads the PID file and
  calls \<open>kill\<close>, that is, runs in which \<open>main\<close> gets as far as \<open>--kill\<close>: the options
  parse, neither the version nor the help is asked for, the user is root. In every such
  run: if the PID file names a process that is gone (\<open>kill\<close> fails with \<open>ESRCH\<close>),
  ``Removing stale lock file.'' goes to stderr, the PID file is unlinked and the exit
  status is 0; after a kill that succeeds the file is unlinked as well, without the
  message; and if no PID can be read, the daemon says that no other tincd is running and
  exits with status 1.
\<close>

theorem kill_option_outcome:
  assumes "p = parse_options e opts (s0\<lparr>program_name := (case argv of [] \<Rightarrow> [] | a # x \<Rightarrow> a)\<rparr>)"
    and "alive p" and "\<not> show_version p" and "\<not> show_help p" and "euid e = 0"
    and "kill_tincd p"
    and "s = make_names e (p\<lparr>g_argv := argv\<rparr>)"
    and "pid = read_pid (pidfilename s) s"
    and "s' = main e opts argv s0"
  shows "status s' = (if pid = 0 then Exited 1 else Exited 0)
    \<and> trace s' = trace s0 @
         (if pid = 0
          then [Stderr (case netname s of
                  Some n \<Rightarrow> ''No other tincd is running for net `'' @ n @ [CHR 0x27] @ ''.'' @ nl
                | None \<Rightarrow> ''No other tincd is running.'' @ nl)]
          else if kill_errno e pid = ESRCH
          then [Kill pid SIGTERM, Stderr (''Removing stale lock file.'' @ nl),
                Remove_pid (pidfilename s)]
          else [Kill pid SIGTERM, Remove_pid (pidfilename s)])
    \<and> pidfiles s' = (if pid = 0 then pidfiles s0 else (pidfiles s0)(pidfilename s := None))"
proof -
  from assms(1,2) have tr: "trace p = trace s0"
    using parse_options_alive [of e opts "s0\<lparr>program_name := (case argv of [] \<Rightarrow> [] | a # x \<Rightarrow> a)\<rparr>"]
    by simp
  have pf: "pidfiles p = pidfiles s0"
    by (simp add: assms(1))
  have m: "s' = (case kill_other e s of (r, u) \<Rightarrow> exit r u)"
    using assms by (simp add: main_def Let_def)
  have trs: "trace s = trace s0" and pfs: "pidfiles s = pidfiles s0"
    using tr pf by (simp_all add: assms(7))
  show ?thesis
    unfolding m kill_other_eq using assms(8) trs pfs
    by (simp add: Let_def exit_def emit_def)
qed

theorem kill_option_outcome_witness:
  "euid env0 = 0
   \<and> kill_tincd (parse_options env0 kill_opts ((boot 4300 [v1_pid \<mapsto> 999999])\<lparr>program_name := ''tincd''\<rparr>))
   \<and> status (main env0 kill_opts kill_argv (boot 4300 [v1_pid \<mapsto> 999999])) = Exited 0
   \<and> trace (main env0 kill_opts kill_argv (boot 4300 [v1_pid \<mapsto> 999999])) =
        [Kill 999999 SIGTERM, Stderr (''Removing stale lock file.'' @ nl), Remove_pid v1_pid]
   \<and> pidfiles (main env0 kill_opts kill_argv (boot 4300 [v1_pid \<mapsto> 999999])) v1_pid = None
   \<and> status (main env0 kill_opts kill_argv (boot 4300 [v1_pid \<mapsto> 4242])) = Exited 0
   \<and> trace (main env0 kill_opts kill_argv (boot 4300 [v1_pid \<mapsto> 4242])) =
        [Kill 4242 SIGTERM, Remove_pid v1_pid]
   \<and> pidfiles (main env0 kill_opts kill_argv (boot 4300 [v1_pid \<mapsto> 4242])) v1_pid = None
   \<and> status (main env0 kill_opts kill_argv (boot 4300 Map.empty)) = Exited 1
   \<and> trace (main env0 kill_opts kill_argv (boot 4300 Map.empty)) =
        [Stderr (''No other tincd is running for net `v1'' @ [CHR 0x27] @ ''.'' @ nl)]"
proof -
  have run: "euid env0 = 0
    \<and> kill_tincd (parse_options env0 kill_opts ((boot 4300 files)\<lparr>program_name := ''tincd''\<rparr>))
    \<and> status (main env0 kill_opts kill_argv (boot 4300 files)) =
        (if read_pid v1_pid (boot 4300 files) = 0 then Exited 1 else Exited 0)
    \<and> trace (main env0 kill_opts kill_argv (boot 4300 files)) =
        (if read_pid v1_pid (boot 4300 files) = 0
         then [Stderr (''No other tincd is running for net `v1'' @ [CHR 0x27] @ ''.'' @ nl)]
         else if kill_errno env0 (read_pid v1_pid (boot 4300 files)) = ESRCH
         then [Kill (read_pid v1_pid (boot 4300 files)) SIGTERM,
               Stderr (''Removing stale lock file.'' @ nl), Remove_pid v1_pid]
         else [Kill (read_pid v1_pid (boot 4300 files)) SIGTERM, Remove_pid v1_pid])
    \<and> pidfiles (main env0 kill_opts kill_argv (boot 4300 files)) =
        (if read_pid v1_pid (boot 4300 files) = 0 then files else files(v1_pid := None))"
    for files
    using kill_option_outcome [where
        p = "parse_options env0 kill_opts ((boot 4300 files)\<lparr>program_name := ''tincd''\<rparr>)"
        and e = env0 and opts = kill_opts and ?s0.0 = "boot 4300 files" and argv = kill_argv
        and s = "make_names env0 ((parse_options env0 kill_opts ((boot 4300 files)\<lparr>program_name := ''tincd''\<rparr>))\<lparr>g_argv := kill_argv\<rparr>)"
        and pid = "read_pid v1_pid (boot 4300 files)"
        and s' = "main env0 kill_opts kill_argv (boot 4300 files)"]
    by (simp add: kill_opts_def kill_argv_def alive_def boot_def read_pid_def v1_pid_def)
  from run [of "[v1_pid \<mapsto> 999999]"] run [of "[v1_pid \<mapsto> 4242]"] run [of Map.empty]
  show ?thesis
    by (simp add: read_pid_def boot_def ESRCH_def)
qed

subsection \<open>The PID file after a graceful shutdown\<close>

text \<open>
  Claim C3, on the code. The daemon of net \<open>v1\<close> has written its PID file and is in the
  main loop when TERM, QUIT or INT arrives. The handler runs \<open>cleanup_and_exit\<close> and the
  process exits with status 0, but the PID file is still on disk with the pid in it:
  \<open>cleanup_and_exit\<close> never calls \<open>remove_pid\<close>.
\<close>

theorem graceful_shutdown_keeps_pidfile:
  "status run_term = Exited 0 \<and> pidfiles run_term v1_pid = Some 4300
     \<and> Remove_pid v1_pid \<notin> set (trace run_term)
   \<and> status run_quit = Exited 0 \<and> pidfiles run_quit v1_pid = Some 4300
     \<and> Remove_pid v1_pid \<notin> set (trace run_quit)
   \<and> status run_int = Exited 0 \<and> pidfiles run_int v1_pid = Some 4300
     \<and> Remove_pid v1_pid \<notin> set (trace run_int)"
  by (simp add: run_term_def run_quit_def run_int_def main_enters_loop alive_def v1_pid_def
        term_handlers_trace)

subsection \<open>What the signal handlers do\<close>

text \<open>
  Claim C4, as amended. The handlers that \<open>setup_signals\<close> binds do their work
  themselves, when the signal is delivered; no flag is set for the main loop. The
  handlers of TERM, QUIT and INT close the network connections and end the process with
  status 0; the handler of HUP closes the network connections and sets them up again,
  and returns; the handler of USR1 dumps the connection list, the handler of USR2
  regenerates the keys.
\<close>

theorem handlers_act_at_delivery:
  assumes "alive s" and "t = setup_signals s"
  shows "status (deliver e SIGTERM t) = Exited 0 \<and> conns (deliver e SIGTERM t) = []
      \<and> \<not> plane_up (deliver e SIGTERM t)
    \<and> status (deliver e SIGQUIT t) = Exited 0 \<and> conns (deliver e SIGQUIT t) = []
      \<and> \<not> plane_up (deliver e SIGQUIT t)
    \<and> status (deliver e SIGINT t) = Exited 0 \<and> conns (deliver e SIGINT t) = []
      \<and> \<not> plane_up (deliver e SIGINT t)
    \<and> trace (deliver e SIGTERM t) =
        trace s @ (if debug_lvl s > 0 then [Syslog ''Got TERM signal''] else [])
          @ [Close_network_connections]
          @ (if debug_lvl s > 0 then [Syslog (totals_line s)] else [])
          @ [Closelog, Kill (ppid s) SIGTERM]
    \<and> alive (deliver e SIGHUP t)
    \<and> conns (deliver e SIGHUP t) = (case net_setup e of None \<Rightarrow> [] | Some peers \<Rightarrow> peers)
    \<and> plane_up (deliver e SIGHUP t) = (net_setup e \<noteq> None)
    \<and> trace (deliver e SIGHUP t) =
        trace s @ (if debug_lvl s > 0 then [Syslog ''Got HUP signal''] else [])
          @ [Close_network_connections, Setup_network_connections]
    \<and> trace (deliver e SIGUSR1 t) = trace s @ [Dump_conn_list]
    \<and> trace (deliver e SIGUSR2 t) =
        trace s @ (if debug_lvl s > 1 then [Syslog ''Forcing new keys''] else [])
          @ [Regenerate_keys]"
  using assms(1) unfolding assms(2)
  by (simp add: deliver_after_setup term_handlers_trace sigusr1_handler_def
        sigusr2_handler_def dump_conn_list_def regenerate_keys_def alive_def)

theorem handlers_act_at_delivery_witness:
  "alive (boot 4300 Map.empty)
   \<and> status (deliver env0 SIGTERM (setup_signals (boot 4300 Map.empty))) = Exited 0
   \<and> conns (deliver env0 SIGHUP (setup_signals (boot 4300 Map.empty))) = [''peer'']
   \<and> trace (deliver env0 SIGUSR2 (setup_signals (boot 4300 Map.empty))) = [Regenerate_keys]"
  using handlers_act_at_delivery [where s = "boot 4300 Map.empty" and e = env0
      and t = "setup_signals (boot 4300 Map.empty)"]
  by (simp add: alive_def boot_def)

text \<open>
  Claim C4 as stated fails on the running daemon of net \<open>v1\<close>: the delivery of TERM runs
  \<open>sigterm_handler\<close>, and when the handler is done the connection to the peer is gone
  and the process has exited.
\<close>

theorem handler_tears_down_connections:
  "handlers up0 SIGTERM = Sigterm_handler \<and> conns up0 = [''peer'']
   \<and> conns (deliver env0 SIGTERM up0) = [] \<and> status (deliver env0 SIGTERM up0) = Exited 0
   \<and> trace (deliver env0 SIGTERM up0) =
        trace up0 @ [Close_network_connections, Closelog, Kill 0 SIGTERM]"
  by (simp add: term_handlers_trace)

subsection \<open>Reload on HUP\<close>

text \<open>
  Claim C5, on the code. The daemon of net \<open>v1\<close> runs with the configuration it read at
  startup (no entries); the file now holds \<open>ConnectTo = bravo\<close>. On HUP the handler
  closes the network connections and sets them up again, and that is all: the
  configuration file is not read, the configuration is the old one.
\<close>

theorem sighup_does_not_reparse:
  "handlers up0 SIGHUP = Sighup_handler \<and> config up0 = []
   \<and> conf_disk env_newconf ''/etc/tinc/v1/tincd.conf'' = Some [''ConnectTo = bravo'']
   \<and> config (deliver env_newconf SIGHUP up0) = []
   \<and> trace (deliver env_newconf SIGHUP up0) =
        trace up0 @ [Close_network_connections, Setup_network_connections]
   \<and> alive (deliver env_newconf SIGHUP up0)"
  by (simp add: env_newconf_def env0_def alive_def)

subsection \<open>Restart after a memory fault\<close>



lemma segv_log_fields [simp]:
  "status (segv_log s) = status s" "handlers (segv_log s) = handlers s"
  "trace (segv_log s) =
     trace s @ [Syslog (case cp_file s of
                   Some f \<Rightarrow> ''Got SEGV signal after '' @ f @ '' line ''
                     @ show_int (cp_line s) @ ''. Trying to re-execute.''
                 | None \<Rightarrow> ''Got SEGV signal; trying to re-execute.'')]"
  by (simp_all add: segv_log_def split: option.splits)











subsection \<open>The supervising parent\<close>

text \<open>
  Claim C7, on the code. The supervising parent of a detaching daemon binds TERM to
  \<open>parent_exit\<close> and sleeps 600 seconds; it exits with status 0 on TERM and with status 1
  when the sleep runs out. When the child dies early and CHLD arrives, the handler is the
  same \<open>parent_exit\<close> (bound by \<open>setup_signals\<close>), and the parent exits with status 0,
  the status of success.
\<close>

theorem parent_exits_0_on_sigchld:
  "status (run_parent (Some SIGCHLD)) = Exited 0
   \<and> trace (run_parent (Some SIGCHLD)) =
        [Read_config_file ''/etc/tinc/v1/tincd.conf'', Fork, Sleep 600]
   \<and> status (run_parent (Some SIGTERM)) = Exited 0
   \<and> status (run_parent None) = Exited 1"
  by (simp add: run_parent_eq sleep_def env0_def deliver_def alive_def boot_def emit_def
        parent_exit_def exit_def signal_numbers signal_table_def)

subsection \<open>The observer's node list\<close>

text \<open>
  Claim C8, on the code. The observer knows no node and receives a dump that lists \<open>b\<close>
  and then \<open>a\<close>. For \<open>a\<close> the loop stops at \<open>b\<close>, the first node with a greater name,
  and links the new node behind it (\<open>list_insert_after\<close>), not in front of it: the list
  is \<open>b\<close>, \<open>a\<close>, which is not in order.
\<close>

theorem node_list_out_of_order:
  "ordered (node_list top0)
   \<and> map name (node_list (update 18 13 1 dump_b_a top0)) = [''b'', ''a'']
   \<and> \<not> ordered (node_list (update 18 13 1 dump_b_a top0))"
  by (simp add: update_def dump_b_a_def top0_def account_def store_def new_node_def
        ordered_def Let_def)

subsection \<open>Invocation by an ordinary user\<close>

text \<open>
  Claim C9, as amended. When the options parse and ask neither for the version nor for
  the help, an invocation by a user other than root prints ``You must be root to run
  this program. sorry.'' to stderr and exits with status 1; it has done nothing else:
  no configuration read, no PID file written, no socket opened, no signal bound.
\<close>

theorem not_root_exits_1:
  assumes "p = parse_options e opts (s0\<lparr>program_name := (case argv of [] \<Rightarrow> [] | a # x \<Rightarrow> a)\<rparr>)"
    and "alive p" and "\<not> show_version p" and "\<not> show_help p" and "euid e \<noteq> 0"
    and "s' = main e opts argv s0"
  shows "status s' = Exited 1
    \<and> trace s' = trace s0 @ [Stderr (''You must be root to run this program. sorry.'' @ nl)]
    \<and> pidfiles s' = pidfiles s0 \<and> conns s' = conns s0 \<and> plane_up s' = plane_up s0
    \<and> handlers s' = handlers s0"
proof -
  from assms(1,2) have tr: "trace p = trace s0"
    using parse_options_alive [of e opts "s0\<lparr>program_name := (case argv of [] \<Rightarrow> [] | a # x \<Rightarrow> a)\<rparr>"]
    by simp
  have fr: "pidfiles p = pidfiles s0" "conns p = conns s0" "plane_up p = plane_up s0"
    "handlers p = handlers s0"
    by (simp_all add: assms(1))
  have m: "s' = exit 1 (emit (Stderr (''You must be root to run this program. sorry.'' @ nl)) p)"
    using assms by (simp add: main_def Let_def)
  show ?thesis
    unfolding m using tr fr by (simp add: exit_def emit_def)
qed

theorem not_root_exits_1_witness:
  "alive (parse_options (env0\<lparr>euid := 1000\<rparr>) v1_opts ((boot 4300 Map.empty)\<lparr>program_name := ''tincd''\<rparr>))
   \<and> euid (env0\<lparr>euid := 1000\<rparr>) \<noteq> 0
   \<and> status (main (env0\<lparr>euid := 1000\<rparr>) v1_opts v1_argv (boot 4300 Map.empty)) = Exited 1
   \<and> trace (main (env0\<lparr>euid := 1000\<rparr>) v1_opts v1_argv (boot 4300 Map.empty)) =
        [Stderr (''You must be root to run this program. sorry.'' @ nl)]
   \<and> pidfiles (main (env0\<lparr>euid := 1000\<rparr>) v1_opts v1_argv (boot 4300 Map.empty)) = Map.empty"
  using not_root_exits_1 [where
      p = "parse_options (env0\<lparr>euid := 1000\<rparr>) v1_opts ((boot 4300 Map.empty)\<lparr>program_name := ''tincd''\<rparr>)"
      and e = "env0\<lparr>euid := 1000\<rparr>" and opts = v1_opts and ?s0.0 = "boot 4300 Map.empty"
      and argv = v1_argv
      and s' = "main (env0\<lparr>euid := 1000\<rparr>) v1_opts v1_argv (boot 4300 Map.empty)"]
  by (simp add: v1_opts_def v1_argv_def alive_def boot_def)

text \<open>
  Claim C9 as stated fails for an invocation that asks for the version: run by user 1000,
  \<open>tincd --version\<close> prints the version and exits with status 0, and the message about
  root is never printed.
\<close>

theorem version_without_root:
  "status run_version = Exited 0
   \<and> Stderr (''You must be root to run this program. sorry.'' @ nl) \<notin> set (trace run_version)"
  by (simp add: run_version_def main_def boot_def alive_def exit_def emit_def)

subsection \<open>The end of a traffic dump\<close>

text \<open>
  Claim C10. In a dump that starts with lines of seven fields, a line of which \<open>sscanf\<close>
  converts exactly two fields ends the frame: \<open>update\<close> returns what it has made of the
  lines before it, and reads no further. A line with any other number of fields than two
  or seven makes the observer leave curses, print ``Error receiving traffic
  information'' to stderr and exit with status 1.
\<close>

theorem dump_sentinel_and_error:
  assumes "\<forall>l \<in> set pre. converted l = 7" and "n \<noteq> 7"
    and "u = update control req_dump_traffic now pre t"
  shows "update control req_dump_traffic now (pre @ Line n code req nm ip ib op ob # rest) t =
     (if n = 2 then u
      else u\<lparr> top_status := Exited 1,
              top_trace := top_trace u
                @ [Endwin, Stderr (''Error receiving traffic information'' @ nl)] \<rparr>)"
  using assms(2) unfolding assms(3)
  by (simp add: update_def Let_def recv_loop_append [OF assms(1)])

theorem dump_sentinel_and_error_witness:
  "converted (Line 7 18 13 ''b'' 1 2 3 4) = 7 \<and> (2::int) \<noteq> 7 \<and> (3::int) \<noteq> 7
   \<and> update 18 13 1 ([Line 7 18 13 ''b'' 1 2 3 4] @ Line 2 18 13 ''b'' 1 2 3 4 # []) top0 =
       update 18 13 1 [Line 7 18 13 ''b'' 1 2 3 4] top0
   \<and> top_status (update 18 13 1
        ([Line 7 18 13 ''b'' 1 2 3 4] @ Line 3 18 13 ''a'' 1 2 3 4 # [Line 2 18 13 ''a'' 1 2 3 4])
        top0) = Exited 1"
proof -
  have a: "\<forall>l \<in> set [Line 7 18 13 ''b'' 1 2 3 4]. converted l = 7"
    by simp
  have b: "(2::int) \<noteq> 7" and c: "(3::int) \<noteq> 7"
    by simp_all
  from dump_sentinel_and_error [OF a b refl, where control = 18 and req_dump_traffic = 13
      and now = 1 and t = top0 and code = 18 and req = 13 and nm = "''b''" and ip = 1
      and ib = 2 and op = 3 and ob = 4 and rest = "[]"]
  have first: "update 18 13 1 ([Line 7 18 13 ''b'' 1 2 3 4] @ Line 2 18 13 ''b'' 1 2 3 4 # [])
      top0 = update 18 13 1 [Line 7 18 13 ''b'' 1 2 3 4] top0"
    by simp
  from dump_sentinel_and_error [OF a c refl, where control = 18 and req_dump_traffic = 13
      and now = 1 and t = top0 and code = 18 and req = 13 and nm = "''a''" and ip = 1
      and ib = 2 and op = 3 and ob = 4 and rest = "[Line 2 18 13 ''a'' 1 2 3 4]"]
  have second: "top_status (update 18 13 1
        ([Line 7 18 13 ''b'' 1 2 3 4] @ Line 3 18 13 ''a'' 1 2 3 4 # [Line 2 18 13 ''a'' 1 2 3 4])
        top0) = Exited 1"
    by simp
  from b c first second show ?thesis
    by simp
qed

end
